theory Spec2Isabelle
  imports Main "HOL-Library.Multiset"
begin

section \<open>The spz worker (src/spz.js)\<close>

text \<open>
  The worker keeps one wasm decoding engine (class \<open>SpzSingleton\<close>), and for every
  inbound \<open>load\<close> command fetches the asset, copies it into the engine's memory, lets
  the engine decode it, copies the six result vectors out of the engine's memory, frees the
  engine's buffers and posts the copies to the main thread.

  The engine (\<open>./lib/spz/spz.mjs\<close>), \<open>fetch\<close>, \<open>URL\<close>, \<open>console\<close> and
  \<open>self.postMessage\<close> are not part of the source. What they answer during one run of
  \<open>load\<close> is a parameter of the model (the record \<open>env\<close>); what the worker does to
  them is recorded in the state (the record \<open>world\<close>).

  \<^item> Float32 elements are kept abstract (the type variable \<open>'a\<close>); the default
    \<open>enhancementFunc\<close> is the identity on them.
  \<^item> Every raise of the source and of the host runtime's typed arrays is a branch: a
    rejected \<open>fetch\<close>, a response that is not ok, a rejected \<open>arrayBuffer()\<close>, a
    \<open>null\<close> from \<open>_malloc\<close>, \<open>HEAPU8.set\<close> out of range, a raising \<open>load_spz\<close>,
    a \<open>Float32Array\<close> window that is misaligned or out of range, a host allocation that
    fails, a raising \<open>postMessage\<close>, a failed \<open>spzwasm()\<close>. The accessors
    \<open>vf32_ptr\<close> and \<open>size()\<close>, \<open>_malloc\<close> and \<open>_free\<close> return without
    raising.
  \<^item> The singleton is modelled under any interleaving of \<open>getInstance\<close> calls and
    settlements of \<open>spzwasm()\<close>. A \<open>load\<close> is run from its start to its end: where it
    awaits the pending initialization, the initialization settles as the environment says.
    Two loads that interleave at their suspension points are outside the model.
\<close>

subsection \<open>Values\<close>

datatype js_error =
    InitializationError
  | NetworkError
  | FetchError nat
  | BodyError
  | AllocationError
  | RangeError
  | DecodeError
  | DataCloneError

type_synonym engine = nat

text \<open>What \<open>_malloc\<close> hands back, as the source tests it: \<open>null\<close> or a number.\<close>

datatype jsval = JNull | JNum nat

datatype promise_state = Pending | Fulfilled engine | Rejected js_error

text \<open>
  A promise handed out by \<open>getInstance\<close>: \<open>Promise.resolve(this.instance)\<close>, or the
  object stored in \<open>loadingPromise\<close>, named by its index among the promises that
  \<open>getInstance\<close> constructed.
\<close>

datatype promise = Promise_resolve engine | Promise_obj nat

datatype console_entry = Console_log string | Console_error string js_error

text \<open>A \<open>vector<float>\<close> of the engine, as its accessors \<open>vf32_ptr\<close> and \<open>size()\<close> show it.\<close>

record vec =
  vf32_ptr :: nat
  vsize :: nat

text \<open>
  The raw cloud, the gaussian cloud and the cloud of the outbound message have the same
  fields; \<open>'v\<close> is what the six array fields hold.
\<close>

record 'v cloud =
  numPoints :: nat
  shDegree :: nat
  antialiased :: bool
  positions :: 'v
  scales :: 'v
  rotations :: 'v
  alphas :: 'v
  colors :: 'v
  sh :: 'v

text \<open>
  An \<open>ArrayBuffer\<close> is either the engine's linear memory or a buffer the host allocated
  (named by its index in \<open>host\<close>). A \<open>Float32Array\<close> is a window on one.
\<close>

datatype backing = Engine_heap | Host_buffer nat

record typed_array =
  buffer :: backing
  byteOffset :: nat
  tlength :: nat

record 'a wasm_heap =
  HEAPF32 :: "nat \<Rightarrow> 'a"
  byteLength :: nat

datatype engine_event =
    Malloc nat jsval
  | Load_spz nat nat "vec cloud option"
  | Free nat

record outbound =
  msg_status :: string
  gaussianCloud :: "backing cloud"

record posting =
  message :: outbound
  transfer :: "backing list"

record response =
  ok :: bool
  status :: nat
  arrayBuffer :: "js_error + nat list"

record inbound =
  data_type :: string
  data_url :: string

subsection \<open>The environment of one load and the state of the worker\<close>

record 'a env =
  spzwasm :: "js_error + engine"
  fetch :: "js_error + response"
  malloc :: jsval
  HEAPU8_length :: nat
  load_spz :: "js_error + vec cloud \<times> 'a wasm_heap"
  host_alloc_fails :: "nat \<Rightarrow> bool"
  postMessage :: "js_error option"

record 'a world =
  singleton_instance :: "engine option"
  loadingPromise :: "nat option"
  promises :: "promise_state list"
  spzwasm_calls :: nat
  console :: "console_entry list"
  engine_log :: "engine_event list"
  host :: "'a list list"
  outbox :: "posting list"
  revoked :: "string list"
  listening :: bool

definition initial_world :: "'a world" where
  "initial_world =
     \<lparr>singleton_instance = None, loadingPromise = None, promises = [], spzwasm_calls = 0,
      console = [], engine_log = [], host = [], outbox = [], revoked = [],
      listening = False\<rparr>"

subsection \<open>floatVectorToFloatArray, createGaussianCloudFromRaw, disposeRawGSCloud\<close>

text \<open>
  \<open>new Float32Array(buffer, byteOffset, length)\<close> raises a RangeError when the offset is
  not a multiple of 4 or the window does not fit the buffer.
\<close>

definition new_Float32Array :: "'a wasm_heap \<Rightarrow> nat \<Rightarrow> nat \<Rightarrow> js_error + typed_array" where
  "new_Float32Array wasmModule pointer sz =
     (if pointer mod 4 \<noteq> 0 \<or> byteLength wasmModule < pointer + 4 * sz then Inl RangeError
      else Inr \<lparr>buffer = Engine_heap, byteOffset = pointer, tlength = sz\<rparr>)"

text \<open>The elements a typed array shows, read through its backing buffer.\<close>

definition elements :: "'a wasm_heap \<Rightarrow> 'a list list \<Rightarrow> typed_array \<Rightarrow> 'a list" where
  "elements wasmModule hs a =
     (case buffer a of
        Engine_heap \<Rightarrow> map (\<lambda>i. HEAPF32 wasmModule (byteOffset a div 4 + i)) [0..<tlength a]
      | Host_buffer k \<Rightarrow>
          (if k < length hs then take (tlength a) (drop (byteOffset a div 4) (hs ! k)) else []))"

text \<open>
  \<open>buffer.map(f)\<close> allocates a new typed array on a new host buffer and fills it; the
  allocation raises a RangeError when the host has no memory for it.
\<close>

definition Float32Array_map ::
  "(nat \<Rightarrow> bool) \<Rightarrow> 'a wasm_heap \<Rightarrow> ('a \<Rightarrow> 'a) \<Rightarrow> typed_array \<Rightarrow> 'a world
     \<Rightarrow> 'a world \<times> (js_error + typed_array)" where
  "Float32Array_map fails wasmModule f a w =
     (if fails (length (host w)) then (w, Inl RangeError)
      else (w\<lparr>host := host w @ [map f (elements wasmModule (host w) a)]\<rparr>,
            Inr \<lparr>buffer = Host_buffer (length (host w)), byteOffset = 0, tlength = tlength a\<rparr>))"

definition floatVectorToFloatArray ::
  "(nat \<Rightarrow> bool) \<Rightarrow> 'a wasm_heap \<Rightarrow> vec \<Rightarrow> ('a \<Rightarrow> 'a) \<Rightarrow> 'a world
     \<Rightarrow> 'a world \<times> (js_error + typed_array)" where
  "floatVectorToFloatArray fails wasmModule v enhancementFunc w =
     (let pointer = vf32_ptr v;
          sz = vsize v
      in case new_Float32Array wasmModule pointer sz of
           Inl e \<Rightarrow> (w, Inl e)
         | Inr view \<Rightarrow> Float32Array_map fails wasmModule enhancementFunc view w)"

definition createGaussianCloudFromRaw ::
  "(nat \<Rightarrow> bool) \<Rightarrow> 'a wasm_heap \<Rightarrow> vec cloud \<Rightarrow> 'a world
     \<Rightarrow> 'a world \<times> (js_error + typed_array cloud)" where
  "createGaussianCloudFromRaw fails wasmModule raw w0 =
    (case floatVectorToFloatArray fails wasmModule (positions raw) (\<lambda>n. n) w0 of
      (w1, Inl e) \<Rightarrow> (w1, Inl e)
    | (w1, Inr a1) \<Rightarrow>
    (case floatVectorToFloatArray fails wasmModule (scales raw) (\<lambda>n. n) w1 of
      (w2, Inl e) \<Rightarrow> (w2, Inl e)
    | (w2, Inr a2) \<Rightarrow>
    (case floatVectorToFloatArray fails wasmModule (rotations raw) (\<lambda>n. n) w2 of
      (w3, Inl e) \<Rightarrow> (w3, Inl e)
    | (w3, Inr a3) \<Rightarrow>
    (case floatVectorToFloatArray fails wasmModule (alphas raw) (\<lambda>n. n) w3 of
      (w4, Inl e) \<Rightarrow> (w4, Inl e)
    | (w4, Inr a4) \<Rightarrow>
    (case floatVectorToFloatArray fails wasmModule (colors raw) (\<lambda>n. n) w4 of
      (w5, Inl e) \<Rightarrow> (w5, Inl e)
    | (w5, Inr a5) \<Rightarrow>
    (case floatVectorToFloatArray fails wasmModule (sh raw) (\<lambda>n. n) w5 of
      (w6, Inl e) \<Rightarrow> (w6, Inl e)
    | (w6, Inr a6) \<Rightarrow>
        (w6, Inr \<lparr>numPoints = numPoints raw, shDegree = shDegree raw,
                  antialiased = antialiased raw,
                  positions = a1, scales = a2, rotations = a3,
                  alphas = a4, colors = a5, sh = a6\<rparr>)))))))"

definition free :: "nat \<Rightarrow> 'a world \<Rightarrow> 'a world" where
  "free p w = w\<lparr>engine_log := engine_log w @ [Free p]\<rparr>"

definition disposeRawGSCloud :: "vec cloud \<Rightarrow> 'a world \<Rightarrow> 'a world" where
  "disposeRawGSCloud raw w =
     free (vf32_ptr (sh raw))
       (free (vf32_ptr (colors raw))
         (free (vf32_ptr (alphas raw))
           (free (vf32_ptr (rotations raw))
             (free (vf32_ptr (scales raw))
               (free (vf32_ptr (positions raw)) w)))))"

subsection \<open>SpzSingleton\<close>

definition getInstance :: "'a world \<Rightarrow> 'a world \<times> promise" where
  "getInstance w =
     (case singleton_instance w of
        Some m \<Rightarrow> (w, Promise_resolve m)
      | None \<Rightarrow>
          (case loadingPromise w of
             None \<Rightarrow>
               (w\<lparr>promises := promises w @ [Pending],
                  spzwasm_calls := Suc (spzwasm_calls w),
                  loadingPromise := Some (length (promises w))\<rparr>,
                Promise_obj (length (promises w)))
           | Some p \<Rightarrow> (w, Promise_obj p)))"

text \<open>
  The rest of the promise's executor, which runs when the \<open>spzwasm()\<close> call that
  \<open>getInstance\<close> made for promise \<open>p\<close> settles with \<open>r\<close>.
\<close>

definition spzwasm_settled :: "nat \<Rightarrow> js_error + engine \<Rightarrow> 'a world \<Rightarrow> 'a world" where
  "spzwasm_settled p r w =
     (if p < length (promises w) \<and> promises w ! p = Pending then
        (case r of
           Inr m \<Rightarrow>
             w\<lparr>singleton_instance := Some m,
               console := console w @ [Console_log ''Wasm module loaded successfully''],
               promises := (promises w)[p := Fulfilled m]\<rparr>
         | Inl err \<Rightarrow>
             w\<lparr>console := console w @ [Console_error ''Error loading wasm module:'' err],
               promises := (promises w)[p := Rejected err]\<rparr>)
      else w)"

text \<open>What a caller that awaits the promise sees in state \<open>w\<close>.\<close>

definition settled_as :: "'a world \<Rightarrow> promise \<Rightarrow> promise_state" where
  "settled_as w q =
     (case q of
        Promise_resolve m \<Rightarrow> Fulfilled m
      | Promise_obj p \<Rightarrow> (if p < length (promises w) then promises w ! p else Pending))"

text \<open>
  The singleton under any interleaving: callers call \<open>getInstance\<close>, and pending
  initializations settle, in any order.
\<close>

datatype event = Call_getInstance | Settle nat "js_error + engine"

fun step :: "event \<Rightarrow> 'a world \<Rightarrow> 'a world \<times> promise list" where
  "step Call_getInstance w = (case getInstance w of (w', q) \<Rightarrow> (w', [q]))"
| "step (Settle p r) w = (spzwasm_settled p r w, [])"

fun run :: "event list \<Rightarrow> 'a world \<Rightarrow> 'a world \<times> promise list" where
  "run [] w = (w, [])"
| "run (ev # evs) w =
     (case step ev w of (w1, qs) \<Rightarrow> (case run evs w1 of (w2, qs') \<Rightarrow> (w2, qs @ qs')))"

subsection \<open>load\<close>

text \<open>
  How a run of \<open>load\<close> ends: the \<open>try\<close> block ran to its end, or the \<open>catch\<close> block
  caught an error, or the promise of \<open>load\<close> itself was rejected (the awaited
  \<open>getInstance()\<close> is outside the \<open>try\<close>), or \<open>load\<close> still waits.
\<close>

datatype outcome = Completed | Caught js_error | Load_rejected js_error | Suspended

text \<open>The argument list of \<open>self.postMessage\<close> (lines 110 to 130).\<close>

definition envelope :: "typed_array cloud \<Rightarrow> posting" where
  "envelope gc =
     \<lparr>message =
        \<lparr>msg_status = ''loaded'',
         gaussianCloud =
           \<lparr>numPoints = numPoints gc,
            shDegree = shDegree gc,
            antialiased = antialiased gc,
            positions = buffer (positions gc),
            scales = buffer (scales gc),
            rotations = buffer (rotations gc),
            alphas = buffer (alphas gc),
            colors = buffer (colors gc),
            sh = buffer (sh gc)\<rparr>\<rparr>,
      transfer =
        [buffer (positions gc), buffer (scales gc), buffer (rotations gc),
         buffer (alphas gc), buffer (colors gc), buffer (sh gc)]\<rparr>"

text \<open>Lines 91 to 130: decode, copy out, dispose, post.\<close>

definition load_decode :: "'a env \<Rightarrow> nat \<Rightarrow> nat \<Rightarrow> 'a world \<Rightarrow> 'a world \<times> (js_error + unit)" where
  "load_decode env pointer n w =
     (case load_spz env of
        Inl e \<Rightarrow> (w\<lparr>engine_log := engine_log w @ [Load_spz pointer n None]\<rparr>, Inl e)
      | Inr (rawGsCloud, wasmModule) \<Rightarrow>
          (let w1 = w\<lparr>engine_log := engine_log w @ [Load_spz pointer n (Some rawGsCloud)],
                      console := console w @ [Console_log ''spz.js: load(): rawGsCloud.numPoints='']\<rparr>
           in case createGaussianCloudFromRaw (host_alloc_fails env) wasmModule rawGsCloud w1 of
                (w2, Inl e) \<Rightarrow> (w2, Inl e)
              | (w2, Inr gc) \<Rightarrow>
                  (let w3 = disposeRawGSCloud rawGsCloud w2;
                       w4 = w3\<lparr>console := console w3 @
                              [Console_log ''spz.js: load(): gaussianCloud.numPoints='']\<rparr>
                   in case postMessage env of
                        Some e \<Rightarrow> (w4, Inl e)
                      | None \<Rightarrow> (w4\<lparr>outbox := outbox w4 @ [envelope gc]\<rparr>, Inr ()))))"

text \<open>
  Lines 74 to 130, the \<open>try\<close> block: the state it leaves, the value of the variable
  \<open>pointer\<close> when it is left, and the error it raised, if any.
  (\<open>Uint8Array.BYTES_PER_ELEMENT\<close> is 1.)
\<close>

definition load_try :: "'a env \<Rightarrow> string \<Rightarrow> 'a world \<Rightarrow> 'a world \<times> jsval \<times> (js_error + unit)" where
  "load_try env url w =
     (case fetch env of
        Inl e \<Rightarrow> (w, JNull, Inl e)
      | Inr resp \<Rightarrow>
          if \<not> ok resp then (w, JNull, Inl (FetchError (status resp)))
          else
            (let w1 = w\<lparr>revoked := revoked w @ [url]\<rparr>
             in case arrayBuffer resp of
                  Inl e \<Rightarrow> (w1, JNull, Inl e)
                | Inr spzData \<Rightarrow>
                    (let w2 = w1\<lparr>console := console w1 @
                                 [Console_log ''spz.js: load(): spzData.length='']\<rparr>;
                         pointer = malloc env;
                         w3 = w2\<lparr>engine_log := engine_log w2 @
                                 [Malloc (1 * length spzData) pointer]\<rparr>
                     in case pointer of
                          JNull \<Rightarrow> (w3, pointer, Inl AllocationError)
                        | JNum p \<Rightarrow>
                            if HEAPU8_length env < p div 1 + length spzData
                            then (w3, pointer, Inl RangeError)
                            else (case load_decode env p (length spzData) w3 of
                                    (w4, r) \<Rightarrow> (w4, pointer, r)))))"

text \<open>
  \<open>await\<close> on a promise of \<open>getInstance\<close>: when the promise is the pending
  \<open>loadingPromise\<close>, the caller resumes after the \<open>spzwasm()\<close> call has settled, with
  the answer the environment gives.
\<close>

definition await :: "'a env \<Rightarrow> promise \<Rightarrow> 'a world \<Rightarrow> 'a world \<times> promise_state" where
  "await env q w =
     (let w' = (case q of
                  Promise_resolve m \<Rightarrow> w
                | Promise_obj p \<Rightarrow> spzwasm_settled p (spzwasm env) w)
      in (w', settled_as w' q))"

definition load :: "'a env \<Rightarrow> string \<Rightarrow> 'a world \<Rightarrow> 'a world \<times> outcome" where
  "load env url w =
     (case getInstance w of
        (w1, q) \<Rightarrow>
          (case await env q w1 of
             (w2, Pending) \<Rightarrow> (w2, Suspended)
           | (w2, Rejected e) \<Rightarrow> (w2, Load_rejected e)
           | (w2, Fulfilled inst) \<Rightarrow>
               (let w3 = w2\<lparr>console := console w2 @
                            [Console_log ''spz.js: load(): Wasm instance loaded:'']\<rparr>
                in case load_try env url w3 of
                     (w4, pointer, r) \<Rightarrow>
                       (let w5 = (case r of
                                    Inl e \<Rightarrow> w4\<lparr>console := console w4 @ [Console_error [] e]\<rparr>
                                  | Inr u \<Rightarrow> w4);
                            w6 = (case pointer of
                                    JNull \<Rightarrow> w5
                                  | JNum p \<Rightarrow>
                                      (free p w5)\<lparr>console := console (free p w5) @
                                         [Console_log ''spz.js: load(): done'']\<rparr>)
                        in (w6, case r of Inl e \<Rightarrow> Caught e | Inr u \<Rightarrow> Completed)))))"

subsection \<open>The message listener\<close>

definition on_message :: "'a env \<Rightarrow> inbound \<Rightarrow> 'a world \<Rightarrow> 'a world" where
  "on_message env e w =
     (if data_type e = ''load'' then fst (load env (data_url e) w) else w)"

definition addEventListener :: "'a world \<Rightarrow> 'a world" where
  "addEventListener w = w\<lparr>listening := True\<rparr>"

text \<open>The worker after its script has been evaluated.\<close>

definition worker :: "'a world" where
  "worker = addEventListener initial_world"

text \<open>One inbound message reaches the worker; it is handled when a listener is registered.\<close>

definition dispatch :: "'a env \<Rightarrow> inbound \<Rightarrow> 'a world \<Rightarrow> 'a world" where
  "dispatch env e w = (if listening w then on_message env e w else w)"

subsection \<open>Engine buffers acquired and released\<close>

text \<open>
  The buffers an engine call hands to the worker: the pointer \<open>_malloc\<close> returns, and the
  storage of the six vectors of a raw cloud that \<open>load_spz\<close> returns.
\<close>

fun acquired :: "engine_event \<Rightarrow> nat list" where
  "acquired (Malloc n (JNum p)) = [p]"
| "acquired (Malloc n JNull) = []"
| "acquired (Load_spz p n (Some raw)) =
     [vf32_ptr (positions raw), vf32_ptr (scales raw), vf32_ptr (rotations raw),
      vf32_ptr (alphas raw), vf32_ptr (colors raw), vf32_ptr (sh raw)]"
| "acquired (Load_spz p n None) = []"
| "acquired (Free p) = []"

fun released :: "engine_event \<Rightarrow> nat list" where
  "released (Free p) = [p]"
| "released (Malloc n r) = []"
| "released (Load_spz p n r) = []"

definition acquired_by :: "engine_event list \<Rightarrow> nat list" where
  "acquired_by evs = concat (map acquired evs)"

definition released_by :: "engine_event list \<Rightarrow> nat list" where
  "released_by evs = concat (map released evs)"

subsection \<open>Notions the properties are stated with\<close>

text \<open>The six array fields of a cloud, in the order the source lists them.\<close>

definition arrays :: "'v cloud \<Rightarrow> 'v list" where
  "arrays c = [positions c, scales c, rotations c, alphas c, colors c, sh c]"

text \<open>What the engine's memory holds for a vector: \<open>size()\<close> floats from \<open>vf32_ptr\<close> on.\<close>

definition engine_view :: "'a wasm_heap \<Rightarrow> vec \<Rightarrow> 'a list" where
  "engine_view wasmModule v =
     map (\<lambda>i. HEAPF32 wasmModule (vf32_ptr v div 4 + i)) [0..<vsize v]"


text \<open>
  An environment in which nothing fails for a load that starts with \<open>n\<close> host buffers:
  the asset is fetched, \<open>_malloc\<close> returns a pointer, the asset fits the engine's memory,
  the engine decodes it into six vectors that are aligned and inside its memory, the host
  has memory for the six copies, and the message is posted.
\<close>

definition cooperative :: "nat \<Rightarrow> 'a env \<Rightarrow> bool" where
  "cooperative n env =
     (case (fetch env, malloc env, load_spz env) of
        (Inr resp, JNum p, Inr (raw, h)) \<Rightarrow>
          ok resp
          \<and> (case arrayBuffer resp of
               Inr spzData \<Rightarrow> p + length spzData \<le> HEAPU8_length env
             | Inl e \<Rightarrow> False)
          \<and> list_all (\<lambda>v. vf32_ptr v mod 4 = 0 \<and> vf32_ptr v + 4 * vsize v \<le> byteLength h)
               (arrays raw)
          \<and> list_all (\<lambda>i. \<not> host_alloc_fails env (n + i)) [0..<6]
          \<and> postMessage env = None
      | _ \<Rightarrow> False)"

subsection \<open>A concrete asset and environment\<close>

text \<open>
  One point of degree 0: the engine stores the six vectors at 1024, 1040, 1056, 1072, 1088
  and 1104 of a memory of 65536 bytes whose float slot \<open>i\<close> holds \<open>i\<close>.
\<close>

definition example_raw :: "vec cloud" where
  "example_raw =
     \<lparr>numPoints = 1, shDegree = 0, antialiased = False,
      positions = \<lparr>vf32_ptr = 1024, vsize = 3\<rparr>,
      scales = \<lparr>vf32_ptr = 1040, vsize = 3\<rparr>,
      rotations = \<lparr>vf32_ptr = 1056, vsize = 4\<rparr>,
      alphas = \<lparr>vf32_ptr = 1072, vsize = 1\<rparr>,
      colors = \<lparr>vf32_ptr = 1088, vsize = 3\<rparr>,
      sh = \<lparr>vf32_ptr = 1104, vsize = 0\<rparr>\<rparr>"

definition example_heap :: "nat wasm_heap" where
  "example_heap = \<lparr>HEAPF32 = (\<lambda>i. i), byteLength = 65536\<rparr>"

text \<open>
  An environment in which everything works: the engine loads, the asset of four bytes is
  fetched, \<open>_malloc\<close> returns 64, the engine decodes, the host has memory, the message is
  posted.
\<close>

definition example_env :: "nat env" where
  "example_env =
     \<lparr>spzwasm = Inr 1,
      fetch = Inr \<lparr>ok = True, status = 200, arrayBuffer = Inr [1, 2, 3, 4]\<rparr>,
      malloc = JNum 64,
      HEAPU8_length = 65536,
      load_spz = Inr (example_raw, example_heap),
      host_alloc_fails = (\<lambda>k. False),
      postMessage = None\<rparr>"

text \<open>The copies of the six vectors of that asset, and the scene built on them.\<close>

definition example_copies :: "nat list list" where
  "example_copies =
     [[256, 257, 258], [260, 261, 262], [264, 265, 266, 267], [268], [272, 273, 274], []]"

definition example_scene :: "typed_array cloud" where
  "example_scene =
     \<lparr>numPoints = 1, shDegree = 0, antialiased = False,
      positions = \<lparr>buffer = Host_buffer 0, byteOffset = 0, tlength = 3\<rparr>,
      scales = \<lparr>buffer = Host_buffer 1, byteOffset = 0, tlength = 3\<rparr>,
      rotations = \<lparr>buffer = Host_buffer 2, byteOffset = 0, tlength = 4\<rparr>,
      alphas = \<lparr>buffer = Host_buffer 3, byteOffset = 0, tlength = 1\<rparr>,
      colors = \<lparr>buffer = Host_buffer 4, byteOffset = 0, tlength = 3\<rparr>,
      sh = \<lparr>buffer = Host_buffer 5, byteOffset = 0, tlength = 0\<rparr>\<rparr>"

section \<open>The singleton\<close>

lemma getInstance_pending:
  "singleton_instance w = None \<Longrightarrow> loadingPromise w = Some p \<Longrightarrow>
   getInstance w = (w, Promise_obj p)"
  by (simp add: getInstance_def)

lemma getInstance_ready:
  "singleton_instance w = Some m \<Longrightarrow> getInstance w = (w, Promise_resolve m)"
  by (simp add: getInstance_def)

lemma getInstance_first:
  "getInstance (initial_world :: 'a world) =
     (initial_world\<lparr>promises := [Pending], spzwasm_calls := Suc 0, loadingPromise := Some 0\<rparr>,
      Promise_obj 0)"
  by (simp add: getInstance_def initial_world_def)

lemma run_calls_pending:
  "singleton_instance w = None \<Longrightarrow> loadingPromise w = Some p \<Longrightarrow>
   run (replicate n Call_getInstance) w = (w, replicate n (Promise_obj p))"
  by (induction n) (simp_all add: getInstance_pending)

lemma run_calls_ready:
  "singleton_instance w = Some m \<Longrightarrow>
   run (replicate n Call_getInstance) w = (w, replicate n (Promise_resolve m))"
  by (induction n) (simp_all add: getInstance_ready)

lemma run_first_calls:
  "run (replicate (Suc n) Call_getInstance) (initial_world :: 'a world) =
     (initial_world\<lparr>promises := [Pending], spzwasm_calls := Suc 0, loadingPromise := Some 0\<rparr>,
      replicate (Suc n) (Promise_obj 0))"
  using run_calls_pending
    [of "(initial_world :: 'a world)\<lparr>promises := [Pending], spzwasm_calls := Suc 0,
          loadingPromise := Some 0\<rparr>" 0 n]
  by (simp add: getInstance_first) (simp add: initial_world_def)

lemma fst_run_Cons: "fst (run (ev # evs) w) = fst (run evs (fst (step ev w)))"
  by (simp add: case_prod_beta)

lemma snd_run_Cons: "snd (run (ev # evs) w) = snd (step ev w) @ snd (run evs (fst (step ev w)))"
  by (simp add: case_prod_beta)

lemma length_run: "length (snd (run evs w)) = count_list evs Call_getInstance"
proof (induction evs arbitrary: w)
  case Nil
  then show ?case by simp
next
  case (Cons ev evs)
  then show ?case
    by (cases ev) (simp_all add: case_prod_beta)
qed

text \<open>
  \<open>spzwasm()\<close> has been called once exactly when \<open>loadingPromise\<close> is set, and nothing
  ever clears \<open>loadingPromise\<close>.
\<close>

lemma calls_invariant:
  "spzwasm_calls w = (if loadingPromise w = None then 0 else 1) \<Longrightarrow>
   spzwasm_calls (fst (run evs w)) = (if loadingPromise (fst (run evs w)) = None then 0 else 1)"
proof (induction evs arbitrary: w)
  case Nil
  then show ?case by simp
next
  case (Cons ev evs)
  have "spzwasm_calls (fst (step ev w)) = (if loadingPromise (fst (step ev w)) = None then 0 else 1)"
    using Cons.prems
    by (cases ev) (auto simp: getInstance_def spzwasm_settled_def split: option.splits sum.splits)
  from Cons.IH [OF this] show ?case
    by (simp only: fst_run_Cons)
qed

lemma calls_at_most_once: "spzwasm_calls (fst (run evs (initial_world :: 'a world))) \<le> 1"
  using calls_invariant [of "initial_world :: 'a world" evs]
  by (simp add: initial_world_def split: if_splits)

text \<open>
  Claim C3. However many callers call \<open>getInstance\<close> before the first initialization
  completes, \<open>spzwasm()\<close> is invoked once and every caller gets the same pending promise
  (promise 0); when the initialization succeeds with engine \<open>m\<close>, that promise is fulfilled
  with \<open>m\<close> for all of them, and every later call yields \<open>m\<close> without another
  initialization. Under any interleaving of calls and settlements at all, \<open>spzwasm()\<close> is
  invoked at most once.
\<close>

theorem getInstance_initializes_once:
  "spzwasm_calls (fst (run evs (initial_world :: 'a world))) \<le> 1 \<and>
   (let (w1, qs) = run (replicate (Suc n) Call_getInstance) (initial_world :: 'a world);
        w2 = spzwasm_settled 0 (Inr m) w1;
        (w3, qs') = run (replicate k Call_getInstance) w2
    in spzwasm_calls w1 = 1
       \<and> qs = replicate (Suc n) (Promise_obj 0)
       \<and> map (settled_as w1) qs = replicate (Suc n) Pending
       \<and> map (settled_as w2) qs = replicate (Suc n) (Fulfilled m)
       \<and> qs' = replicate k (Promise_resolve m)
       \<and> spzwasm_calls w3 = 1)"
proof -
  let ?w1 = "(initial_world :: 'a world)\<lparr>promises := [Pending], spzwasm_calls := Suc 0,
               loadingPromise := Some 0\<rparr>"
  let ?w2 = "spzwasm_settled 0 (Inr m) ?w1"
  have i2: "singleton_instance ?w2 = Some m" and c2: "spzwasm_calls ?w2 = 1"
    and p2: "promises ?w2 = [Fulfilled m]"
    by (simp_all add: spzwasm_settled_def)
  have r2: "run (replicate k Call_getInstance) ?w2 = (?w2, replicate k (Promise_resolve m))"
    by (rule run_calls_ready [OF i2])
  show ?thesis
    using calls_at_most_once [of evs, where 'a = 'a]
    by (simp add: run_first_calls r2 c2 p2 i2 settled_as_def Let_def
          del: replicate_Suc replicate.simps)
qed

theorem getInstance_initializes_once_witness:
  "spzwasm_calls (fst (run [Call_getInstance, Settle 0 (Inl InitializationError), Call_getInstance]
      (initial_world :: unit world))) \<le> 1 \<and>
   (let (w1, qs) = run (replicate (Suc 2) Call_getInstance) (initial_world :: unit world);
        w2 = spzwasm_settled 0 (Inr 7) w1;
        (w3, qs') = run (replicate 2 Call_getInstance) w2
    in spzwasm_calls w1 = 1
       \<and> qs = replicate (Suc 2) (Promise_obj 0)
       \<and> map (settled_as w1) qs = replicate (Suc 2) Pending
       \<and> map (settled_as w2) qs = replicate (Suc 2) (Fulfilled 7)
       \<and> qs' = replicate 2 (Promise_resolve 7)
       \<and> spzwasm_calls w3 = 1)"
  by (rule getInstance_initializes_once)

text \<open>Once the only promise is rejected, no event changes the singleton any more.\<close>

lemma step_poisoned:
  assumes "singleton_instance w = None" "loadingPromise w = Some 0" "promises w = [Rejected err]"
  shows "singleton_instance (fst (step ev w)) = None \<and> loadingPromise (fst (step ev w)) = Some 0
         \<and> promises (fst (step ev w)) = [Rejected err]
         \<and> spzwasm_calls (fst (step ev w)) = spzwasm_calls w
         \<and> set (snd (step ev w)) \<subseteq> {Promise_obj 0}"
  using assms by (cases ev) (auto simp: getInstance_def spzwasm_settled_def)

lemma run_poisoned:
  assumes "singleton_instance w = None" "loadingPromise w = Some 0" "promises w = [Rejected err]"
  shows "singleton_instance (fst (run evs w)) = None \<and> loadingPromise (fst (run evs w)) = Some 0
         \<and> promises (fst (run evs w)) = [Rejected err]
         \<and> spzwasm_calls (fst (run evs w)) = spzwasm_calls w
         \<and> set (snd (run evs w)) \<subseteq> {Promise_obj 0}"
  using assms
proof (induction evs arbitrary: w)
  case Nil
  then show ?case by simp
next
  case (Cons ev evs)
  note s = step_poisoned [OF Cons.prems, of ev]
  from s have ih: "singleton_instance (fst (run evs (fst (step ev w)))) = None \<and>
      loadingPromise (fst (run evs (fst (step ev w)))) = Some 0 \<and>
      promises (fst (run evs (fst (step ev w)))) = [Rejected err] \<and>
      spzwasm_calls (fst (run evs (fst (step ev w)))) = spzwasm_calls (fst (step ev w)) \<and>
      set (snd (run evs (fst (step ev w)))) \<subseteq> {Promise_obj 0}"
    by (intro Cons.IH) simp_all
  show ?case
    using s ih by (simp only: fst_run_Cons snd_run_Cons set_append) auto
qed

text \<open>
  Claim C4, as the code has it. When the initialization fails with \<open>err\<close>, every caller
  that waits on the pending promise sees the rejection with \<open>err\<close>. Afterwards, under any
  further calls and settlements, every \<open>getInstance\<close> call returns that same rejected
  promise, no engine is ever stored, and \<open>spzwasm()\<close> is not invoked again: the count
  stays at one.
\<close>

theorem getInstance_failure_is_permanent:
  "(let (w1, qs) = run (replicate (Suc n) Call_getInstance) (initial_world :: 'a world);
        w2 = spzwasm_settled 0 (Inl err) w1;
        (w3, qs') = run evs w2
    in map (settled_as w2) qs = replicate (Suc n) (Rejected err)
       \<and> length qs' = count_list evs Call_getInstance
       \<and> set qs' \<subseteq> {Promise_obj 0}
       \<and> settled_as w3 (Promise_obj 0) = Rejected err
       \<and> singleton_instance w3 = None
       \<and> spzwasm_calls w3 = 1)"
proof -
  let ?w1 = "(initial_world :: 'a world)\<lparr>promises := [Pending], spzwasm_calls := Suc 0,
               loadingPromise := Some 0\<rparr>"
  let ?w2 = "spzwasm_settled 0 (Inl err) ?w1"
  have i2: "singleton_instance ?w2 = None" and c2: "spzwasm_calls ?w2 = 1"
    and p2: "promises ?w2 = [Rejected err]" and l2: "loadingPromise ?w2 = Some 0"
    by (simp_all add: spzwasm_settled_def initial_world_def)
  note r = run_poisoned [OF i2 l2 p2, of evs]
  show ?thesis
    using r length_run [of evs ?w2]
    by (simp add: run_first_calls c2 p2 settled_as_def Let_def case_prod_beta
          del: replicate_Suc replicate.simps)
qed

theorem getInstance_failure_is_permanent_witness:
  "(let (w1, qs) = run (replicate (Suc 1) Call_getInstance) (initial_world :: unit world);
        w2 = spzwasm_settled 0 (Inl InitializationError) w1;
        (w3, qs') = run [Call_getInstance, Settle 0 (Inr 7), Call_getInstance] w2
    in map (settled_as w2) qs = replicate (Suc 1) (Rejected InitializationError)
       \<and> length qs' = count_list [Call_getInstance, Settle 0 (Inr 7), Call_getInstance] Call_getInstance
       \<and> set qs' \<subseteq> {Promise_obj 0}
       \<and> settled_as w3 (Promise_obj 0) = Rejected InitializationError
       \<and> singleton_instance w3 = None
       \<and> spzwasm_calls w3 = 1)"
  by (rule getInstance_failure_is_permanent)

text \<open>
  Claim C4 as stated fails: a call after a failed initialization does not start a fresh
  attempt. It gets the rejected promise 0 again, and \<open>spzwasm()\<close> has still been invoked
  once only.
\<close>

theorem getInstance_no_retry:
  "spzwasm_calls (fst (run [Call_getInstance, Settle 0 (Inl InitializationError), Call_getInstance]
       (initial_world :: unit world))) = 1
   \<and> snd (run [Call_getInstance, Settle 0 (Inl InitializationError), Call_getInstance]
       (initial_world :: unit world)) = [Promise_obj 0, Promise_obj 0]
   \<and> settled_as (fst (run [Call_getInstance, Settle 0 (Inl InitializationError), Call_getInstance]
       (initial_world :: unit world))) (Promise_obj 0) = Rejected InitializationError"
  by (simp add: getInstance_def spzwasm_settled_def initial_world_def settled_as_def)

section \<open>Copying out of the engine\<close>

lemma floatVector_Inr:
  "floatVectorToFloatArray fails h v f w = (w', Inr a) \<Longrightarrow>
   w' = w\<lparr>host := host w @ [map f (engine_view h v)]\<rparr> \<and>
   a = \<lparr>buffer = Host_buffer (length (host w)), byteOffset = 0, tlength = vsize v\<rparr>"
  by (auto simp: floatVectorToFloatArray_def new_Float32Array_def Float32Array_map_def
        elements_def engine_view_def Let_def split: if_splits)

lemma floatVector_Inl:
  "floatVectorToFloatArray fails h v f w = (w', Inl e) \<Longrightarrow> w' = w \<and> e = RangeError"
  by (auto simp: floatVectorToFloatArray_def new_Float32Array_def Float32Array_map_def
        Let_def split: if_splits)

lemma create_Inr:
  assumes "createGaussianCloudFromRaw fails h raw w = (w', Inr gc)"
  shows "w' = w\<lparr>host := host w @ map (engine_view h) (arrays raw)\<rparr>"
    and "gc = \<lparr>numPoints = numPoints raw, shDegree = shDegree raw, antialiased = antialiased raw,
            positions = \<lparr>buffer = Host_buffer (length (host w)), byteOffset = 0, tlength = vsize (positions raw)\<rparr>,
            scales = \<lparr>buffer = Host_buffer (length (host w) + 1), byteOffset = 0, tlength = vsize (scales raw)\<rparr>,
            rotations = \<lparr>buffer = Host_buffer (length (host w) + 2), byteOffset = 0, tlength = vsize (rotations raw)\<rparr>,
            alphas = \<lparr>buffer = Host_buffer (length (host w) + 3), byteOffset = 0, tlength = vsize (alphas raw)\<rparr>,
            colors = \<lparr>buffer = Host_buffer (length (host w) + 4), byteOffset = 0, tlength = vsize (colors raw)\<rparr>,
            sh = \<lparr>buffer = Host_buffer (length (host w) + 5), byteOffset = 0, tlength = vsize (sh raw)\<rparr>\<rparr>"
  using assms
  by (auto simp: createGaussianCloudFromRaw_def arrays_def
        split: prod.splits sum.splits dest!: floatVector_Inr)

lemma create_Inl:
  assumes "createGaussianCloudFromRaw fails h raw w = (w', Inl e)"
  shows "e = RangeError \<and> singleton_instance w' = singleton_instance w \<and> loadingPromise w' = loadingPromise w
    \<and> promises w' = promises w \<and> spzwasm_calls w' = spzwasm_calls w \<and> console w' = console w
    \<and> engine_log w' = engine_log w \<and> outbox w' = outbox w \<and> revoked w' = revoked w
    \<and> listening w' = listening w"
  using assms
  by (auto simp: createGaussianCloudFromRaw_def split: prod.splits sum.splits
        dest!: floatVector_Inr floatVector_Inl)


lemma elements_host:
  "length hs \<le> k \<Longrightarrow>
   elements any (hs @ bs) \<lparr>buffer = Host_buffer k, byteOffset = 0, tlength = n\<rparr>
     = (if k - length hs < length bs then take n (bs ! (k - length hs)) else [])"
  by (auto simp: elements_def nth_append)

lemma length_engine_view: "length (engine_view h v) = vsize v"
  by (simp add: engine_view_def)

lemma load_try_frame:
  assumes "load_try env url w = (w', ptr, r)"
  shows "listening w' = listening w \<and> singleton_instance w' = singleton_instance w
       \<and> loadingPromise w' = loadingPromise w \<and> promises w' = promises w
       \<and> spzwasm_calls w' = spzwasm_calls w
       \<and> (case r of Inl e \<Rightarrow> outbox w' = outbox w | Inr u \<Rightarrow> \<exists>gc. outbox w' = outbox w @ [envelope gc])"
  using assms
  by (auto simp: load_try_def load_decode_def Let_def disposeRawGSCloud_def free_def
      split: sum.splits if_splits jsval.splits prod.splits option.splits
      dest!: create_Inr(1) create_Inl)

section \<open>One load, path by path\<close>

lemma getInstance_frame:
  assumes "getInstance w = (w1, q)"
  shows "console w1 = console w \<and> engine_log w1 = engine_log w \<and> host w1 = host w
       \<and> outbox w1 = outbox w \<and> revoked w1 = revoked w \<and> listening w1 = listening w"
  using assms by (auto simp: getInstance_def split: option.splits)

lemma await_frame:
  assumes "await env q w1 = (w2, st)"
  shows "engine_log w2 = engine_log w1 \<and> host w2 = host w1
       \<and> outbox w2 = outbox w1 \<and> revoked w2 = revoked w1 \<and> listening w2 = listening w1"
  using assms
  by (auto simp: await_def spzwasm_settled_def Let_def split: promise.splits sum.splits if_splits)

lemma dispose_log:
  "engine_log (disposeRawGSCloud raw w) = engine_log w @
     [Free (vf32_ptr (positions raw)), Free (vf32_ptr (scales raw)),
      Free (vf32_ptr (rotations raw)), Free (vf32_ptr (alphas raw)),
      Free (vf32_ptr (colors raw)), Free (vf32_ptr (sh raw))]"
  by (simp add: disposeRawGSCloud_def free_def)

lemma load_decode_log:
  assumes "load_decode env p n w = (w', r)"
  shows "\<exists>evs. engine_log w' = engine_log w @ evs \<and>
          (case r of
             Inr u \<Rightarrow> mset (acquired_by evs) = mset (released_by evs)
           | Inl e \<Rightarrow> mset (acquired_by evs) = mset (released_by evs) \<or>
               (\<exists>raw h w1 w2. load_spz env = Inr (raw, h) \<and>
                  createGaussianCloudFromRaw (host_alloc_fails env) h raw w1 = (w2, Inl e)))"
proof (cases "load_spz env")
  case (Inl e)
  with assms show ?thesis
    by (auto simp: load_decode_def acquired_by_def released_by_def)
next
  case (Inr d)
  obtain raw h where d: "d = (raw, h)" by (cases d)
  let ?w1 = "w\<lparr>engine_log := engine_log w @ [Load_spz p n (Some raw)],
               console := console w @ [Console_log ''spz.js: load(): rawGsCloud.numPoints='']\<rparr>"
  obtain w2 c where c: "createGaussianCloudFromRaw (host_alloc_fails env) h raw ?w1 = (w2, c)"
    by (cases "createGaussianCloudFromRaw (host_alloc_fails env) h raw ?w1")
  show ?thesis
  proof (cases c)
    case (Inl e)
    from create_Inl [OF c [unfolded Inl]] have "engine_log w2 = engine_log ?w1" by simp
    with assms Inr d c Inl have "r = Inl e" "engine_log w' = engine_log w @ [Load_spz p n (Some raw)]"
      by (simp_all add: load_decode_def Let_def)
    with Inr d c Inl show ?thesis by auto
  next
    case (Inr gc)
    from create_Inr(1) [OF c [unfolded Inr]] have l2: "engine_log w2 = engine_log ?w1" by simp
    have "engine_log w' = engine_log w @ Load_spz p n (Some raw) #
        [Free (vf32_ptr (positions raw)), Free (vf32_ptr (scales raw)),
         Free (vf32_ptr (rotations raw)), Free (vf32_ptr (alphas raw)),
         Free (vf32_ptr (colors raw)), Free (vf32_ptr (sh raw))]"
      using assms \<open>load_spz env = Inr d\<close> d c Inr l2
      by (auto simp: load_decode_def Let_def dispose_log split: option.splits)
    then show ?thesis
      by (auto simp: acquired_by_def released_by_def split: sum.splits)
  qed
qed


lemma load_try_log:
  assumes "load_try env url w = (w', ptr, r)"
  shows "\<exists>evs. engine_log w' = engine_log w @ evs \<and>
          (mset (acquired_by evs) = mset (released_by evs) + mset (case ptr of JNull \<Rightarrow> [] | JNum p \<Rightarrow> [p])
           \<or> (\<exists>e raw h w1 w2. r = Inl e \<and> load_spz env = Inr (raw, h) \<and>
                  createGaussianCloudFromRaw (host_alloc_fails env) h raw w1 = (w2, Inl e)))"
  using assms
  apply (simp add: load_try_def Let_def split: sum.splits if_splits jsval.splits prod.splits)
        apply (auto simp: acquired_by_def released_by_def dest!: load_decode_log split: sum.splits)
  done


lemma load_cases:
  assumes "load env url w = (w', out)"
  obtains
    (suspended) w1 q where "getInstance w = (w1, q)" "await env q w1 = (w', Pending)"
      "out = Suspended"
  | (rejected) w1 q e where "getInstance w = (w1, q)" "await env q w1 = (w', Rejected e)"
      "out = Load_rejected e"
  | (ran) w1 q w2 inst w4 ptr r where "getInstance w = (w1, q)"
      "await env q w1 = (w2, Fulfilled inst)"
      "load_try env url
         (w2\<lparr>console := console w2 @ [Console_log ''spz.js: load(): Wasm instance loaded:'']\<rparr>)
         = (w4, ptr, r)"
      "engine_log w' = engine_log w4 @ (case ptr of JNull \<Rightarrow> [] | JNum p \<Rightarrow> [Free p])"
      "console w' = console w4 @ (case r of Inl e \<Rightarrow> [Console_error [] e] | Inr u \<Rightarrow> [])
          @ (case ptr of JNull \<Rightarrow> [] | JNum p \<Rightarrow> [Console_log ''spz.js: load(): done''])"
      "host w' = host w4" "outbox w' = outbox w4" "revoked w' = revoked w4"
      "listening w' = listening w4" "singleton_instance w' = singleton_instance w4"
      "loadingPromise w' = loadingPromise w4" "promises w' = promises w4"
      "spzwasm_calls w' = spzwasm_calls w4"
      "out = (case r of Inl e \<Rightarrow> Caught e | Inr u \<Rightarrow> Completed)"
proof -
  obtain w1 q where g: "getInstance w = (w1, q)" by (cases "getInstance w")
  obtain w2 st where a: "await env q w1 = (w2, st)" by (cases "await env q w1")
  show thesis
  proof (cases st)
    case Pending
    with assms g a show thesis by (intro suspended [of w1 q]) (simp_all add: load_def)
  next
    case (Rejected e)
    with assms g a show thesis by (intro rejected [of w1 q e]) (simp_all add: load_def)
  next
    case (Fulfilled inst)
    let ?w3 = "w2\<lparr>console := console w2 @ [Console_log ''spz.js: load(): Wasm instance loaded:'']\<rparr>"
    obtain w4 ptr r where t: "load_try env url ?w3 = (w4, ptr, r)"
      by (cases "load_try env url ?w3")
    from assms g a Fulfilled t show thesis
      by (intro ran [of w1 q w2 inst w4 ptr r])
         (auto simp: load_def Let_def free_def split: sum.splits jsval.splits)
  qed
qed

lemma load_log:
  assumes "load env url w = (w', out)"
  shows "\<exists>evs. engine_log w' = engine_log w @ evs \<and>
          (mset (acquired_by evs) = mset (released_by evs)
           \<or> (\<exists>e raw h w1 w2. out = Caught e \<and> load_spz env = Inr (raw, h) \<and>
                  createGaussianCloudFromRaw (host_alloc_fails env) h raw w1 = (w2, Inl e)))"
  using assms
proof (cases rule: load_cases)
  case (suspended w1 q)
  then show ?thesis
    using getInstance_frame [of w w1 q] await_frame [of env q w1 w' Pending]
    by (simp add: acquired_by_def released_by_def)
next
  case (rejected w1 q e)
  then show ?thesis
    using getInstance_frame [of w w1 q] await_frame [of env q w1 w' "Rejected e"]
    by (simp add: acquired_by_def released_by_def)
next
  case (ran w1 q w2 inst w4 ptr r)
  from load_try_log [OF ran(3), simplified] obtain evs where
    e: "engine_log w4 = engine_log w2 @ evs \<and>
      (mset (acquired_by evs) = mset (released_by evs) + mset (case ptr of JNull \<Rightarrow> [] | JNum p \<Rightarrow> [p])
       \<or> (\<exists>e raw h w1 w2. r = Inl e \<and> load_spz env = Inr (raw, h) \<and>
              createGaussianCloudFromRaw (host_alloc_fails env) h raw w1 = (w2, Inl e)))"
    by blast
  note evs = conjunct1 [OF e] conjunct2 [OF e]
  have l2: "engine_log w2 = engine_log w"
    using getInstance_frame [OF ran(1)] await_frame [OF ran(2)] by simp
  let ?evs = "evs @ (case ptr of JNull \<Rightarrow> [] | JNum p \<Rightarrow> [Free p])"
  have "engine_log w' = engine_log w @ ?evs"
    using ran(4) evs(1) l2 by simp
  moreover have "mset (acquired_by ?evs) = mset (released_by ?evs)
           \<or> (\<exists>e raw h w1 w2. out = Caught e \<and> load_spz env = Inr (raw, h) \<and>
                  createGaussianCloudFromRaw (host_alloc_fails env) h raw w1 = (w2, Inl e))"
    using evs(2) ran(14)
    by (auto simp: acquired_by_def released_by_def split: jsval.splits)
  ultimately show ?thesis by blast
qed

lemma load_listening:
  assumes "load env url w = (w', out)"
  shows "listening w' = listening w"
  using assms
proof (cases rule: load_cases)
  case (suspended w1 q)
  then show ?thesis
    using getInstance_frame [of w w1 q] await_frame [of env q w1 w' Pending] by simp
next
  case (rejected w1 q e)
  then show ?thesis
    using getInstance_frame [of w w1 q] await_frame [of env q w1 w' "Rejected e"] by simp
next
  case (ran w1 q w2 inst w4 ptr r)
  then show ?thesis
    using getInstance_frame [of w w1 q] await_frame [of env q w1 w2 "Fulfilled inst"]
      load_try_frame [OF ran(3)] by simp
qed

lemma load_outbox:
  assumes "load env url w = (w', out)"
  shows "if out = Completed then \<exists>gc. outbox w' = outbox w @ [envelope gc]
         else outbox w' = outbox w"
  using assms
proof (cases rule: load_cases)
  case (suspended w1 q)
  then show ?thesis
    using getInstance_frame [of w w1 q] await_frame [of env q w1 w' Pending] by simp
next
  case (rejected w1 q e)
  then show ?thesis
    using getInstance_frame [of w w1 q] await_frame [of env q w1 w' "Rejected e"] by simp
next
  case (ran w1 q w2 inst w4 ptr r)
  then show ?thesis
    using getInstance_frame [of w w1 q] await_frame [of env q w1 w2 "Fulfilled inst"]
      load_try_frame [OF ran(3)] by (auto split: sum.splits)
qed

lemma load_Caught_logged:
  assumes "load env url w = (w', Caught e)"
  shows "Console_error [] e \<in> set (console w')"
  using assms
  by (cases rule: load_cases) (auto split: sum.splits)

lemma floatVector_ok:
  assumes "vf32_ptr v mod 4 = 0" "vf32_ptr v + 4 * vsize v \<le> byteLength h"
    "\<not> fails (length (host w))"
  shows "floatVectorToFloatArray fails h v f w =
     (w\<lparr>host := host w @ [map f (engine_view h v)]\<rparr>,
      Inr \<lparr>buffer = Host_buffer (length (host w)), byteOffset = 0, tlength = vsize v\<rparr>)"
  using assms
  by (simp add: floatVectorToFloatArray_def new_Float32Array_def Float32Array_map_def
        elements_def engine_view_def Let_def)

lemma create_ok:
  assumes "list_all (\<lambda>v. vf32_ptr v mod 4 = 0 \<and> vf32_ptr v + 4 * vsize v \<le> byteLength h) (arrays raw)"
    "list_all (\<lambda>i. \<not> fails (length (host w) + i)) [0..<6]"
  shows "\<exists>w' gc. createGaussianCloudFromRaw fails h raw w = (w', Inr gc)"
proof -
  have six: "[0..<6] = [0, 1, 2, 3, 4, 5]"
    by (simp add: upt_rec)
  have f: "\<not> fails (length (host w))" "\<not> fails (Suc (length (host w)))"
    "\<not> fails (Suc (Suc (length (host w))))" "\<not> fails (Suc (Suc (Suc (length (host w)))))"
    "\<not> fails (Suc (Suc (Suc (Suc (length (host w))))))"
    "\<not> fails (Suc (Suc (Suc (Suc (Suc (length (host w)))))))"
    using assms(2) unfolding six by (simp_all add: numeral_eq_Suc)
  show ?thesis
    using assms(1) f
    by (simp add: createGaussianCloudFromRaw_def arrays_def floatVector_ok)
qed

lemma load_rejected_again:
  assumes "load env url w = (w', Load_rejected e)"
  shows "load env2 url2 w' = (w', Load_rejected e)"
  using assms
proof (cases rule: load_cases)
  case (rejected w1 q e')
  then have "e' = e" by simp
  from rejected(1,2) have "getInstance w' = (w', q) \<and> await env2 q w' = (w', Rejected e')"
    by (auto simp: await_def getInstance_def settled_as_def spzwasm_settled_def Let_def
        split: promise.splits option.splits if_splits sum.splits)
  then show ?thesis
    using \<open>e' = e\<close> by (simp add: load_def)
qed (simp_all split: sum.splits)

lemma load_ran_ready:
  assumes "load env url w = (w', out)" "out = Caught e \<or> out = Completed"
  shows "\<exists>q inst. getInstance w' = (w', q) \<and> (\<forall>env2. await env2 q w' = (w', Fulfilled inst))"
  using assms
proof (cases rule: load_cases)
  case (ran w1 q w2 inst w4 ptr r)
  from ran(1,2) have "\<exists>q inst. getInstance w2 = (w2, q) \<and> (\<forall>env2. await env2 q w2 = (w2, Fulfilled inst))"
    by (auto simp: await_def getInstance_def settled_as_def spzwasm_settled_def Let_def
        split: promise.splits option.splits if_splits sum.splits)
  moreover have "singleton_instance w' = singleton_instance w2" "loadingPromise w' = loadingPromise w2"
    "promises w' = promises w2"
    using ran load_try_frame [OF ran(3)] by simp_all
  ultimately show ?thesis
    by (auto simp: await_def getInstance_def settled_as_def spzwasm_settled_def Let_def
        split: promise.splits option.splits if_splits sum.splits)
qed (simp_all split: sum.splits)

lemma cooperative_completes:
  assumes "getInstance w = (w1, q)" "await env q w1 = (w2, Fulfilled inst)"
    "cooperative (length (host w)) env"
  shows "snd (load env url w) = Completed"
proof -
  obtain resp where e1: "fetch env = Inr resp"
    using assms(3) by (cases "fetch env") (simp_all add: cooperative_def)
  obtain p where e2: "malloc env = JNum p"
    using assms(3) e1 by (cases "malloc env") (simp_all add: cooperative_def)
  obtain raw h where e3: "load_spz env = Inr (raw, h)"
    using assms(3) e1 e2 by (cases "load_spz env") (auto simp: cooperative_def)
  obtain spzData where e4: "arrayBuffer resp = Inr spzData"
    using assms(3) e1 e2 e3 by (cases "arrayBuffer resp") (simp_all add: cooperative_def)
  have e5: "ok resp" "p + length spzData \<le> HEAPU8_length env" "postMessage env = None"
    and v: "list_all (\<lambda>v. vf32_ptr v mod 4 = 0 \<and> vf32_ptr v + 4 * vsize v \<le> byteLength h) (arrays raw)"
    and k: "list_all (\<lambda>i. \<not> host_alloc_fails env (length (host w) + i)) [0..<6]"
    using assms(3) e1 e2 e3 e4 by (simp_all add: cooperative_def)
  note e = e1 e2 e3 e4 e5
  have h2: "host w2 = host w"
    using getInstance_frame [OF assms(1)] await_frame [OF assms(2)] by simp
  let ?w = "w2\<lparr>console := console w2 @ [Console_log ''spz.js: load(): Wasm instance loaded:''],
              revoked := revoked w2 @ [url],
              console := console w2 @ [Console_log ''spz.js: load(): Wasm instance loaded:'',
                 Console_log ''spz.js: load(): spzData.length=''],
              engine_log := engine_log w2 @ [Malloc (length spzData) (JNum p), Load_spz p (length spzData) (Some raw)],
              console := console w2 @ [Console_log ''spz.js: load(): Wasm instance loaded:'',
                 Console_log ''spz.js: load(): spzData.length='',
                 Console_log ''spz.js: load(): rawGsCloud.numPoints='']\<rparr>"
  have "list_all (\<lambda>i. \<not> host_alloc_fails env (length (host ?w) + i)) [0..<6]"
    using k h2 by simp
  from create_ok [OF v this] obtain w' gc where
    "createGaussianCloudFromRaw (host_alloc_fails env) h raw ?w = (w', Inr gc)" by blast
  then show ?thesis
    using assms(1,2) e
    by (simp add: load_def load_try_def load_decode_def Let_def)
qed

lemma cooperative_example: "cooperative n example_env"
  by (simp add: cooperative_def example_env_def example_raw_def example_heap_def arrays_def upt_rec)

section \<open>The concrete asset, evaluated\<close>

lemmas load_eval = load_def getInstance_def await_def spzwasm_settled_def settled_as_def
        load_try_def load_decode_def createGaussianCloudFromRaw_def floatVectorToFloatArray_def
        new_Float32Array_def Float32Array_map_def free_def disposeRawGSCloud_def
        example_env_def example_raw_def example_heap_def worker_def addEventListener_def
        initial_world_def Let_def

lemma example_copy:
  "createGaussianCloudFromRaw (\<lambda>k. False) example_heap example_raw (worker :: nat world) =
     (worker\<lparr>host := example_copies\<rparr>, Inr example_scene)"
  by (simp add: createGaussianCloudFromRaw_def floatVectorToFloatArray_def
        new_Float32Array_def Float32Array_map_def elements_def example_raw_def example_heap_def
        example_copies_def example_scene_def
        worker_def addEventListener_def initial_world_def Let_def upt_rec)

lemma load_example:
  "load example_env ''blob:asset'' worker =
     (\<lparr>singleton_instance = Some 1, loadingPromise = Some 0, promises = [Fulfilled 1],
       spzwasm_calls = 1,
       console = [Console_log ''Wasm module loaded successfully'',
                  Console_log ''spz.js: load(): Wasm instance loaded:'',
                  Console_log ''spz.js: load(): spzData.length='',
                  Console_log ''spz.js: load(): rawGsCloud.numPoints='',
                  Console_log ''spz.js: load(): gaussianCloud.numPoints='',
                  Console_log ''spz.js: load(): done''],
       engine_log = [Malloc 4 (JNum 64), Load_spz 64 4 (Some example_raw),
                     Free 1024, Free 1040, Free 1056, Free 1072, Free 1088, Free 1104, Free 64],
       host = example_copies,
       outbox = [envelope example_scene],
       revoked = [''blob:asset''],
       listening = True\<rparr>, Completed)"
proof -
  have c: "createGaussianCloudFromRaw (\<lambda>k. False) example_heap example_raw w =
             (w\<lparr>host := example_copies\<rparr>, Inr example_scene)" if "host w = []" for w :: "nat world"
    using that
    by (simp add: createGaussianCloudFromRaw_def floatVectorToFloatArray_def
        new_Float32Array_def Float32Array_map_def elements_def example_raw_def example_heap_def
        example_copies_def example_scene_def Let_def upt_rec)
  show ?thesis
    by (simp add: load_def getInstance_def await_def spzwasm_settled_def settled_as_def
        load_try_def load_decode_def c free_def disposeRawGSCloud_def
        example_env_def worker_def addEventListener_def initial_world_def Let_def)
       (simp add: example_raw_def)
qed


lemma load_404:
  "load (example_env\<lparr>fetch := Inr \<lparr>ok = False, status = 404, arrayBuffer = Inr []\<rparr>\<rparr>)
      ''blob:asset'' worker =
     (\<lparr>singleton_instance = Some 1, loadingPromise = Some 0, promises = [Fulfilled 1],
       spzwasm_calls = 1,
       console = [Console_log ''Wasm module loaded successfully'',
                  Console_log ''spz.js: load(): Wasm instance loaded:'',
                  Console_error [] (FetchError 404)],
       engine_log = [], host = [], outbox = [], revoked = [], listening = True\<rparr>,
      Caught (FetchError 404))"
  by (simp add: load_def getInstance_def await_def spzwasm_settled_def settled_as_def
        load_try_def example_env_def worker_def addEventListener_def initial_world_def Let_def)

lemma load_init_fails:
  "load (example_env\<lparr>spzwasm := Inl InitializationError\<rparr>) ''blob:asset'' worker =
     (\<lparr>singleton_instance = None, loadingPromise = Some 0,
       promises = [Rejected InitializationError], spzwasm_calls = 1,
       console = [Console_error ''Error loading wasm module:'' InitializationError],
       engine_log = [], host = [], outbox = [], revoked = [], listening = True\<rparr>,
      Load_rejected InitializationError)"
  by (simp add: load_def getInstance_def await_def spzwasm_settled_def settled_as_def
        example_env_def worker_def addEventListener_def initial_world_def Let_def)

section \<open>The scene\<close>

text \<open>
  Claim C2. When \<open>createGaussianCloudFromRaw\<close> succeeds, the six arrays of the scene sit on
  six new host buffers (the next six indices of the host's store, none of them the engine's
  memory); the buffers that existed before are untouched; each array shows exactly the
  elements the engine's memory showed for its vector when it was copied; and after the
  engine's buffers have been released (\<open>disposeRawGSCloud\<close>, then \<open>_free\<close>), the arrays
  still show those elements, whatever the engine's memory holds by then.
\<close>

theorem scene_arrays_are_host_copies:
  assumes "createGaussianCloudFromRaw fails wasmModule raw w = (w', Inr gc)"
  shows "map buffer (arrays gc) =
           [Host_buffer (length (host w)), Host_buffer (length (host w) + 1),
            Host_buffer (length (host w) + 2), Host_buffer (length (host w) + 3),
            Host_buffer (length (host w) + 4), Host_buffer (length (host w) + 5)]
       \<and> host w' = host w @ map (engine_view wasmModule) (arrays raw)
       \<and> map (elements wasmModule (host w')) (arrays gc) = map (engine_view wasmModule) (arrays raw)
       \<and> host (free p (disposeRawGSCloud raw w')) = host w'
       \<and> map (elements later (host (free p (disposeRawGSCloud raw w')))) (arrays gc)
           = map (engine_view wasmModule) (arrays raw)"
proof -
  note c = create_Inr [OF assms]
  have h: "host w' = host w @ map (engine_view wasmModule) (arrays raw)"
    by (simp add: c(1))
  have f: "host (free p (disposeRawGSCloud raw w')) = host w'"
    by (simp add: free_def disposeRawGSCloud_def)
  have b: "map buffer (arrays gc) =
           [Host_buffer (length (host w)), Host_buffer (length (host w) + 1),
            Host_buffer (length (host w) + 2), Host_buffer (length (host w) + 3),
            Host_buffer (length (host w) + 4), Host_buffer (length (host w) + 5)]"
    by (simp add: c(2) arrays_def)
  have e: "map (elements any (host w')) (arrays gc) = map (engine_view wasmModule) (arrays raw)" for any
    by (simp add: h c(2) arrays_def elements_host length_engine_view)
  show ?thesis
    using h f b e by simp
qed

theorem scene_arrays_are_host_copies_witness:
  "map buffer (arrays example_scene) =
           [Host_buffer (length (host (worker :: nat world))), Host_buffer (length (host (worker :: nat world)) + 1),
            Host_buffer (length (host (worker :: nat world)) + 2), Host_buffer (length (host (worker :: nat world)) + 3),
            Host_buffer (length (host (worker :: nat world)) + 4), Host_buffer (length (host (worker :: nat world)) + 5)]
       \<and> host ((worker :: nat world)\<lparr>host := example_copies\<rparr>)
           = host (worker :: nat world) @ map (engine_view example_heap) (arrays example_raw)
       \<and> map (elements example_heap (host ((worker :: nat world)\<lparr>host := example_copies\<rparr>)))
             (arrays example_scene) = map (engine_view example_heap) (arrays example_raw)
       \<and> host (free 64 (disposeRawGSCloud example_raw ((worker :: nat world)\<lparr>host := example_copies\<rparr>)))
           = host ((worker :: nat world)\<lparr>host := example_copies\<rparr>)
       \<and> map (elements \<lparr>HEAPF32 = (\<lambda>i. 0), byteLength = 0\<rparr>
               (host (free 64 (disposeRawGSCloud example_raw ((worker :: nat world)\<lparr>host := example_copies\<rparr>)))))
             (arrays example_scene)
           = map (engine_view example_heap) (arrays example_raw)"
  by (rule scene_arrays_are_host_copies [OF example_copy])




lemma load_decode_completed:
  assumes "load_decode env p n w = (w', Inr u)"
  shows "\<exists>raw h w1 w2 scene. load_spz env = Inr (raw, h)
           \<and> createGaussianCloudFromRaw (host_alloc_fails env) h raw w1 = (w2, Inr scene)
           \<and> host w1 = host w \<and> host w' = host w2
           \<and> outbox w' = outbox w @ [envelope scene]"
proof (cases "load_spz env")
  case (Inl e)
  with assms show ?thesis by (simp add: load_decode_def)
next
  case (Inr d)
  obtain raw h where d: "d = (raw, h)" by (cases d)
  let ?w1 = "w\<lparr>engine_log := engine_log w @ [Load_spz p n (Some raw)],
               console := console w @ [Console_log ''spz.js: load(): rawGsCloud.numPoints='']\<rparr>"
  obtain w2 c where c: "createGaussianCloudFromRaw (host_alloc_fails env) h raw ?w1 = (w2, c)"
    by (cases "createGaussianCloudFromRaw (host_alloc_fails env) h raw ?w1")
  show ?thesis
  proof (cases c)
    case (Inl e)
    with assms Inr d c show ?thesis by (simp add: load_decode_def Let_def)
  next
    case scene: (Inr scene)
    from create_Inr(1) [OF c [unfolded scene]] have o2: "outbox w2 = outbox w" by simp
    have "host w' = host w2 \<and> outbox w' = outbox w @ [envelope scene]"
      using assms Inr d c scene o2
      by (auto simp: load_decode_def Let_def disposeRawGSCloud_def free_def split: option.splits)
    moreover have "host ?w1 = host w" by simp
    ultimately show ?thesis
      using Inr d c scene by blast
  qed
qed

lemma load_try_completed:
  assumes "load_try env url w = (w', ptr, Inr u)"
  shows "\<exists>raw h w1 w2 scene. load_spz env = Inr (raw, h)
           \<and> createGaussianCloudFromRaw (host_alloc_fails env) h raw w1 = (w2, Inr scene)
           \<and> host w1 = host w \<and> host w' = host w2
           \<and> outbox w' = outbox w @ [envelope scene]"
  using assms
  apply (simp add: load_try_def Let_def split: sum.splits if_splits jsval.splits prod.splits)
  apply (auto dest!: load_decode_completed)
  apply blast
  done

lemma load_completed:
  assumes "load env url w = (w', Completed)"
  shows "\<exists>raw h w1 w2 scene. load_spz env = Inr (raw, h)
           \<and> createGaussianCloudFromRaw (host_alloc_fails env) h raw w1 = (w2, Inr scene)
           \<and> host w1 = host w \<and> host w' = host w2
           \<and> outbox w' = outbox w @ [envelope scene]"
  using assms
proof (cases rule: load_cases)
  case (ran w1 q w2 inst w4 ptr r)
  then obtain u where r: "r = Inr u" by (cases r) simp_all
  from load_try_completed [OF ran(3) [unfolded r]] show ?thesis
    using ran(6,7) getInstance_frame [OF ran(1)] await_frame [OF ran(2)] by simp
qed simp_all

text \<open>
  Claim C6. The envelope carries the \<open>buffer\<close> of each of the six arrays of the scene, the
  transfer list is those same six buffers in the same order, and \<open>numPoints\<close>,
  \<open>shDegree\<close> and \<open>antialiased\<close> are passed on unchanged. When a load completes, the one
  message it posted is the envelope of the scene that \<open>createGaussianCloudFromRaw\<close> returned,
  and the host holds no buffer beyond those of that scene: nothing was copied for the
  message.
\<close>

theorem envelope_transfers_scene_buffers:
  "arrays (gaussianCloud (message (envelope gc))) = map buffer (arrays gc)
   \<and> transfer (envelope gc) = map buffer (arrays gc)
   \<and> numPoints (gaussianCloud (message (envelope gc))) = numPoints gc
   \<and> shDegree (gaussianCloud (message (envelope gc))) = shDegree gc
   \<and> antialiased (gaussianCloud (message (envelope gc))) = antialiased gc
   \<and> msg_status (message (envelope gc)) = ''loaded''
   \<and> (snd (load env url w) = Completed \<longrightarrow>
        (\<exists>raw h w1 w2 scene. load_spz env = Inr (raw, h)
           \<and> createGaussianCloudFromRaw (host_alloc_fails env) h raw w1 = (w2, Inr scene)
           \<and> host w1 = host w
           \<and> host (fst (load env url w)) = host w2
           \<and> outbox (fst (load env url w)) = outbox w @ [envelope scene]))"
proof -
  have "snd (load env url w) = Completed \<longrightarrow>
        (\<exists>raw h w1 w2 scene. load_spz env = Inr (raw, h)
           \<and> createGaussianCloudFromRaw (host_alloc_fails env) h raw w1 = (w2, Inr scene)
           \<and> host w1 = host w
           \<and> host (fst (load env url w)) = host w2
           \<and> outbox (fst (load env url w)) = outbox w @ [envelope scene])"
    using load_completed [of env url w "fst (load env url w)"]
    by (metis prod.collapse)
  then show ?thesis
    by (simp add: envelope_def arrays_def)
qed

theorem envelope_transfers_scene_buffers_witness:
  "arrays (gaussianCloud (message (envelope example_scene))) = map buffer (arrays example_scene)
   \<and> transfer (envelope example_scene) = map buffer (arrays example_scene)
   \<and> numPoints (gaussianCloud (message (envelope example_scene))) = numPoints example_scene
   \<and> shDegree (gaussianCloud (message (envelope example_scene))) = shDegree example_scene
   \<and> antialiased (gaussianCloud (message (envelope example_scene))) = antialiased example_scene
   \<and> msg_status (message (envelope example_scene)) = ''loaded''
   \<and> (\<exists>raw h w1 w2 scene. load_spz example_env = Inr (raw, h)
           \<and> createGaussianCloudFromRaw (host_alloc_fails example_env) h raw w1 = (w2, Inr scene)
           \<and> host w1 = host (worker :: nat world)
           \<and> host (fst (load example_env ''blob:asset'' worker)) = host w2
           \<and> outbox (fst (load example_env ''blob:asset'' worker))
               = outbox (worker :: nat world) @ [envelope scene])"
proof -
  have c: "snd (load example_env ''blob:asset'' worker) = Completed"
    by (simp add: load_example)
  note t = envelope_transfers_scene_buffers [of example_scene example_env "''blob:asset''" worker]
  show ?thesis
    using t c by (simp only: simp_thms)
qed

section \<open>Engine buffers\<close>

text \<open>
  Claim C1 at a failing input. The asset is fetched and decoded; the host runs out of memory
  for the third copy (\<open>rotations\<close>), so \<open>createGaussianCloudFromRaw\<close> raises a RangeError.
  \<open>disposeRawGSCloud\<close> is skipped, and the \<open>finally\<close> block frees the input buffer only:
  seven buffers were acquired (the input buffer at 64 and the six vectors), one was
  released. (On every other path the buffers acquired are the buffers released: lemma
  \<open>load_log\<close>.)
\<close>

theorem load_leaks_output_buffers:
  "snd (load (example_env\<lparr>host_alloc_fails := (\<lambda>k. k = 2)\<rparr>) ''blob:asset'' worker) = Caught RangeError
   \<and> acquired_by (engine_log (fst (load (example_env\<lparr>host_alloc_fails := (\<lambda>k. k = 2)\<rparr>) ''blob:asset'' worker)))
        = [64, 1024, 1040, 1056, 1072, 1088, 1104]
   \<and> released_by (engine_log (fst (load (example_env\<lparr>host_alloc_fails := (\<lambda>k. k = 2)\<rparr>) ''blob:asset'' worker)))
        = [64]"
  by (simp add: load_eval acquired_by_def released_by_def)

text \<open>
  The branch of lines 85 to 87. If \<open>_malloc\<close> returned \<open>null\<close>, the load would end in
  the \<open>catch\<close> block with the allocation error and leave no trace but the \<open>_malloc\<close>
  call itself, the revoked URL and the console lines: no \<open>_free\<close>, no other engine
  call, no host buffer, no message.
\<close>

lemma malloc_null_branch:
  assumes "getInstance w = (w1, q)" "await env q w1 = (w2, Fulfilled inst)"
    "fetch env = Inr resp" "ok resp" "arrayBuffer resp = Inr spzData" "malloc env = JNull"
  shows "load env url w =
           (w2\<lparr>console := console w2 @
                  [Console_log ''spz.js: load(): Wasm instance loaded:'',
                   Console_log ''spz.js: load(): spzData.length='',
                   Console_error [] AllocationError],
               engine_log := engine_log w2 @ [Malloc (length spzData) JNull],
               revoked := revoked w2 @ [url]\<rparr>,
            Caught AllocationError)
       \<and> engine_log (fst (load env url w)) = engine_log w @ [Malloc (length spzData) JNull]
       \<and> released_by (engine_log (fst (load env url w))) = released_by (engine_log w)
       \<and> host (fst (load env url w)) = host w
       \<and> outbox (fst (load env url w)) = outbox w"
proof -
  have l: "load env url w =
           (w2\<lparr>console := console w2 @
                  [Console_log ''spz.js: load(): Wasm instance loaded:'',
                   Console_log ''spz.js: load(): spzData.length='',
                   Console_error [] AllocationError],
               engine_log := engine_log w2 @ [Malloc (length spzData) JNull],
               revoked := revoked w2 @ [url]\<rparr>,
            Caught AllocationError)"
    using assms by (simp add: load_def load_try_def Let_def)
  have f: "engine_log w2 = engine_log w" "host w2 = host w" "outbox w2 = outbox w"
    using getInstance_frame [OF assms(1)] await_frame [OF assms(2)] by simp_all
  show ?thesis
    using f by (simp add: l released_by_def)
qed

lemma malloc_null_branch_example:
  "snd (load (example_env\<lparr>malloc := JNull\<rparr>) ''blob:asset'' worker) = Caught AllocationError
   \<and> engine_log (fst (load (example_env\<lparr>malloc := JNull\<rparr>) ''blob:asset'' worker)) = [Malloc 4 JNull]
   \<and> released_by (engine_log (fst (load (example_env\<lparr>malloc := JNull\<rparr>) ''blob:asset'' worker))) = []
   \<and> host (fst (load (example_env\<lparr>malloc := JNull\<rparr>) ''blob:asset'' worker)) = []
   \<and> outbox (fst (load (example_env\<lparr>malloc := JNull\<rparr>) ''blob:asset'' worker)) = []"
proof -
  let ?w1 = "(worker :: nat world)\<lparr>promises := [Pending], spzwasm_calls := Suc 0, loadingPromise := Some 0\<rparr>"
  let ?w2 = "(worker :: nat world)\<lparr>promises := [Fulfilled 1], spzwasm_calls := Suc 0, loadingPromise := Some 0,
               singleton_instance := Some 1,
               console := [Console_log ''Wasm module loaded successfully'']\<rparr>"
  have g: "getInstance (worker :: nat world) = (?w1, Promise_obj 0)"
    by (simp add: getInstance_def worker_def addEventListener_def initial_world_def)
  have a: "await (example_env\<lparr>malloc := JNull\<rparr>) (Promise_obj 0) ?w1 = (?w2, Fulfilled 1)"
    by (simp add: await_def spzwasm_settled_def settled_as_def example_env_def worker_def
          addEventListener_def initial_world_def)
  show ?thesis
    using malloc_null_branch [OF g a, of "\<lparr>ok = True, status = 200, arrayBuffer = Inr [1, 2, 3, 4]\<rparr>"
        "[1, 2, 3, 4]" "''blob:asset''"]
    by (simp add: example_env_def worker_def addEventListener_def initial_world_def released_by_def)
qed

text \<open>
  The engine is a wasm module (line 1; \<open>HEAPU8\<close>, \<open>HEAPF32\<close>, \<open>_malloc\<close>, \<open>_free\<close>):
  its \<open>_malloc\<close> returns a number, 0 when it cannot allocate, and never \<open>null\<close>. For a
  number, 0 included, the test of line 85 is false. The load goes on, and whatever happens
  next, the \<open>finally\<close> block calls \<open>_free\<close> on the number. An allocation error can
  then come from the environment only, never from line 86.
\<close>

lemma load_decode_log_prefix:
  assumes "load_decode env p n w = (w', r)"
  shows "\<exists>evs. engine_log w' = engine_log w @ evs"
  using load_decode_log [OF assms] by blast

lemma malloc_number_is_freed:
  assumes "getInstance w = (w1, q)" "await env q w1 = (w2, Fulfilled inst)"
    "fetch env = Inr resp" "ok resp" "arrayBuffer resp = Inr spzData" "malloc env = JNum p"
  shows "\<exists>evs. engine_log (fst (load env url w)) =
           engine_log w @ Malloc (length spzData) (JNum p) # evs @ [Free p]"
proof -
  have f: "engine_log w2 = engine_log w"
    using getInstance_frame [OF assms(1)] await_frame [OF assms(2)] by simp
  let ?w3 = "w2\<lparr>revoked := revoked w2 @ [url],
               console := console w2 @ [Console_log ''spz.js: load(): Wasm instance loaded:'',
                 Console_log ''spz.js: load(): spzData.length=''],
               engine_log := engine_log w2 @ [Malloc (length spzData) (JNum p)]\<rparr>"
  show ?thesis
  proof (cases "HEAPU8_length env < p + length spzData")
    case True
    with assms f show ?thesis
      by (simp add: load_def load_try_def Let_def free_def)
  next
    case False
    obtain w4 r where d: "load_decode env p (length spzData) ?w3 = (w4, r)"
      by (cases "load_decode env p (length spzData) ?w3")
    from load_decode_log_prefix [OF d] obtain evs where
      e: "engine_log w4 = engine_log w @ Malloc (length spzData) (JNum p) # evs"
      using f by auto
    have "engine_log (fst (load env url w)) = engine_log w4 @ [Free p]"
      using assms False d
      by (simp add: load_def load_try_def Let_def free_def split: sum.splits)
    with e show ?thesis by simp
  qed
qed

lemma AllocationError_needs_null:
  assumes "load_try env url w = (w', ptr, Inl AllocationError)" "malloc env = JNum p"
  shows "fetch env = Inl AllocationError
       \<or> (\<exists>resp. fetch env = Inr resp \<and> arrayBuffer resp = Inl AllocationError)
       \<or> load_spz env = Inl AllocationError
       \<or> postMessage env = Some AllocationError"
  using assms
  by (auto simp: load_try_def load_decode_def Let_def
      split: sum.splits if_splits prod.splits option.splits dest!: create_Inl)

text \<open>
  Claim C5 at a failing input. \<open>_malloc\<close> cannot allocate and returns 0. No allocation
  error is raised: the asset is written to address 0 and \<open>load_spz(0, 4)\<close> is called.
  When the engine decodes what it finds there, the load completes and posts a message;
  when the engine raises, the load ends in the \<open>catch\<close> block with the engine's error.
  Either way the \<open>finally\<close> block calls \<open>_free(0)\<close> for the allocation that failed.
\<close>

theorem failed_malloc_is_not_detected:
  "snd (load (example_env\<lparr>malloc := JNum 0\<rparr>) ''blob:asset'' worker) = Completed
   \<and> engine_log (fst (load (example_env\<lparr>malloc := JNum 0\<rparr>) ''blob:asset'' worker)) =
       [Malloc 4 (JNum 0), Load_spz 0 4 (Some example_raw),
        Free 1024, Free 1040, Free 1056, Free 1072, Free 1088, Free 1104, Free 0]
   \<and> outbox (fst (load (example_env\<lparr>malloc := JNum 0\<rparr>) ''blob:asset'' worker))
       = [envelope example_scene]
   \<and> snd (load (example_env\<lparr>malloc := JNum 0, load_spz := Inl DecodeError\<rparr>) ''blob:asset'' worker)
       = Caught DecodeError
   \<and> engine_log (fst (load (example_env\<lparr>malloc := JNum 0, load_spz := Inl DecodeError\<rparr>)
        ''blob:asset'' worker)) = [Malloc 4 (JNum 0), Load_spz 0 4 None, Free 0]"
proof -
  have c: "createGaussianCloudFromRaw (\<lambda>k. False) example_heap example_raw w =
             (w\<lparr>host := example_copies\<rparr>, Inr example_scene)" if "host w = []" for w :: "nat world"
    using that
    by (simp add: createGaussianCloudFromRaw_def floatVectorToFloatArray_def
        new_Float32Array_def Float32Array_map_def elements_def example_raw_def example_heap_def
        example_copies_def example_scene_def Let_def upt_rec)
  show ?thesis
    by (simp add: load_def getInstance_def await_def spzwasm_settled_def settled_as_def
        load_try_def load_decode_def c free_def disposeRawGSCloud_def
        example_env_def worker_def addEventListener_def initial_world_def Let_def)
       (simp add: example_raw_def)
qed

section \<open>The URL\<close>

lemma load_try_revoked:
  assumes "load_try env url w = (w', ptr, r)"
  shows "revoked w' =
           (case fetch env of
              Inr resp \<Rightarrow> if ok resp then revoked w @ [url] else revoked w
            | Inl e \<Rightarrow> revoked w)"
  using assms
  by (auto simp: load_try_def load_decode_def Let_def disposeRawGSCloud_def free_def
      split: sum.splits if_splits jsval.splits prod.splits option.splits
      dest!: create_Inr(1) create_Inl)

lemma load_revoked:
  assumes "load env url w = (w', out)"
  shows "revoked w' =
           (if (out = Completed \<or> (\<exists>e. out = Caught e)) \<and> (\<exists>resp. fetch env = Inr resp \<and> ok resp)
            then revoked w @ [url] else revoked w)"
  using assms
proof (cases rule: load_cases)
  case (suspended w1 q)
  then show ?thesis
    using getInstance_frame [of w w1 q] await_frame [of env q w1 w' Pending] by simp
next
  case (rejected w1 q e)
  then show ?thesis
    using getInstance_frame [of w w1 q] await_frame [of env q w1 w' "Rejected e"] by simp
next
  case (ran w1 q w2 inst w4 ptr r)
  then show ?thesis
    using getInstance_frame [of w w1 q] await_frame [of env q w1 w2 "Fulfilled inst"]
      load_try_revoked [OF ran(3)] by (auto split: sum.splits)
qed

text \<open>
  Claim C8 at failing inputs. When the response is a 404, and when \<open>fetch\<close> itself is
  rejected, the load ends in the \<open>catch\<close> block and \<open>URL.revokeObjectURL\<close> has not been
  called: the call comes after the \<open>throw\<close>. When the fetch succeeds, the URL is revoked.
  (In general the URL is revoked exactly when the engine is available and the response
  is ok: lemma \<open>load_revoked\<close>.)
\<close>

theorem failed_fetch_leaves_url_unrevoked:
  "snd (load (example_env\<lparr>fetch := Inr \<lparr>ok = False, status = 404, arrayBuffer = Inr []\<rparr>\<rparr>)
          ''blob:asset'' worker) = Caught (FetchError 404)
   \<and> revoked (fst (load (example_env\<lparr>fetch := Inr \<lparr>ok = False, status = 404, arrayBuffer = Inr []\<rparr>\<rparr>)
          ''blob:asset'' worker)) = []
   \<and> snd (load (example_env\<lparr>fetch := Inl NetworkError\<rparr>) ''blob:asset'' worker) = Caught NetworkError
   \<and> revoked (fst (load (example_env\<lparr>fetch := Inl NetworkError\<rparr>) ''blob:asset'' worker)) = []
   \<and> revoked (fst (load example_env ''blob:asset'' worker)) = [''blob:asset'']"
  by (simp add: load_example)
     (simp add: load_def getInstance_def await_def spzwasm_settled_def settled_as_def
        load_try_def example_env_def worker_def addEventListener_def initial_world_def Let_def)

section \<open>The listener\<close>

lemma dispatch_listening: "listening (dispatch env e w) = listening w"
  using load_listening [of env "data_url e" w "fst (load env (data_url e) w)" "snd (load env (data_url e) w)"]
  by (simp add: dispatch_def on_message_def)

lemma load_after_Caught:
  assumes "load env url w = (w', Caught err)" "cooperative (length (host w')) env2"
  shows "snd (load env2 url2 w') = Completed"
proof -
  from load_ran_ready [OF assms(1)] obtain q inst where
    "getInstance w' = (w', q)" "await env2 q w' = (w', Fulfilled inst)"
    by blast
  then show ?thesis
    using assms(2) by (rule cooperative_completes)
qed

text \<open>
  Claim C9, as the code has it. No load, however it ends, unregisters the listener, so the
  next command is handled. After a load that ended in the \<open>catch\<close> block (fetch,
  allocation, decode, copy or post failed), a load in a cooperative environment completes.
  After a load that was rejected because the engine's initialization failed, every later
  load is rejected with the same error and changes nothing, whatever its environment.
\<close>

theorem load_failure_keeps_worker_listening:
  "listening (dispatch env e w) = listening w
   \<and> listening (fst (load env url w)) = listening w
   \<and> (snd (load env url w) = Caught err
        \<and> cooperative (length (host (fst (load env url w)))) env2
      \<longrightarrow> snd (load env2 url2 (fst (load env url w))) = Completed)
   \<and> (snd (load env url w) = Load_rejected err
      \<longrightarrow> load env2 url2 (fst (load env url w)) = (fst (load env url w), Load_rejected err))"
proof -
  have l: "load env url w = (fst (load env url w), snd (load env url w))"
    by simp
  have a: "listening (fst (load env url w)) = listening w"
    by (rule load_listening [OF l])
  have b: "snd (load env2 url2 (fst (load env url w))) = Completed"
    if "snd (load env url w) = Caught err" "cooperative (length (host (fst (load env url w)))) env2"
    using load_after_Caught [OF l [unfolded that(1)] that(2)] .
  have c: "load env2 url2 (fst (load env url w)) = (fst (load env url w), Load_rejected err)"
    if "snd (load env url w) = Load_rejected err"
    using load_rejected_again [OF l [unfolded that]] .
  show ?thesis
    using a b c dispatch_listening [of env e w] by blast
qed

theorem load_failure_keeps_worker_listening_witness:
  "listening (fst (load (example_env\<lparr>fetch := Inr \<lparr>ok = False, status = 404, arrayBuffer = Inr []\<rparr>\<rparr>)
      ''blob:asset'' worker))
   \<and> snd (load example_env ''blob:again''
        (fst (load (example_env\<lparr>fetch := Inr \<lparr>ok = False, status = 404, arrayBuffer = Inr []\<rparr>\<rparr>)
          ''blob:asset'' worker))) = Completed
   \<and> snd (load example_env ''blob:again''
        (fst (load (example_env\<lparr>spzwasm := Inl InitializationError\<rparr>) ''blob:asset'' worker)))
      = Load_rejected InitializationError"
proof -
  let ?e404 = "example_env\<lparr>fetch := Inr \<lparr>ok = False, status = 404, arrayBuffer = Inr []\<rparr>\<rparr>"
  let ?einit = "example_env\<lparr>spzwasm := Inl InitializationError\<rparr>"
  have w: "listening (worker :: nat world)"
    by (simp add: worker_def addEventListener_def)
  have f: "snd (load ?e404 ''blob:asset'' worker) = Caught (FetchError 404)"
    by (simp add: load_404)
  have i: "snd (load ?einit ''blob:asset'' worker) = Load_rejected InitializationError"
    by (simp add: load_init_fails)
  note t1 = load_failure_keeps_worker_listening
      [of ?e404 "\<lparr>data_type = ''load'', data_url = ''blob:asset''\<rparr>" worker "''blob:asset''"
          "FetchError 404" example_env "''blob:again''"]
  note t2 = load_failure_keeps_worker_listening
      [of ?einit "\<lparr>data_type = ''load'', data_url = ''blob:asset''\<rparr>" worker "''blob:asset''"
          InitializationError example_env "''blob:again''"]
  show ?thesis
    using t1 t2 w f i cooperative_example by simp
qed

text \<open>
  Claim C9 as stated fails for a failed initialization: the environment in which a load
  completes on a fresh worker cannot make a load complete once the initialization has
  failed. The listener is still registered and handles the command, and the load is
  rejected again; nothing is posted.
\<close>

theorem no_load_succeeds_after_failed_initialization:
  "snd (load example_env ''blob:asset'' worker) = Completed
   \<and> snd (load (example_env\<lparr>spzwasm := Inl InitializationError\<rparr>) ''blob:asset'' worker)
       = Load_rejected InitializationError
   \<and> listening (fst (load (example_env\<lparr>spzwasm := Inl InitializationError\<rparr>) ''blob:asset'' worker))
   \<and> snd (load example_env ''blob:asset''
        (fst (load (example_env\<lparr>spzwasm := Inl InitializationError\<rparr>) ''blob:asset'' worker)))
       = Load_rejected InitializationError
   \<and> outbox (dispatch example_env \<lparr>data_type = ''load'', data_url = ''blob:asset''\<rparr>
        (dispatch (example_env\<lparr>spzwasm := Inl InitializationError\<rparr>)
           \<lparr>data_type = ''load'', data_url = ''blob:asset''\<rparr> worker)) = []"
proof -
  let ?einit = "example_env\<lparr>spzwasm := Inl InitializationError\<rparr>"
  let ?m = "\<lparr>data_type = ''load'', data_url = ''blob:asset''\<rparr>"
  have w: "listening (worker :: nat world)"
    by (simp add: worker_def addEventListener_def)
  have 1: "snd (load example_env ''blob:asset'' worker) = Completed"
    by (simp add: load_example)
  have 2: "snd (load ?einit ''blob:asset'' worker) = Load_rejected InitializationError"
    and 3: "listening (fst (load ?einit ''blob:asset'' worker))"
    and o: "outbox (fst (load ?einit ''blob:asset'' worker)) = []"
    by (simp_all add: load_init_fails)
  have r: "load ?einit ''blob:asset'' worker
             = (fst (load ?einit ''blob:asset'' worker), Load_rejected InitializationError)"
    by (simp add: load_init_fails)
  note 4 = load_rejected_again [OF r, of example_env "''blob:asset''"]
  have d1: "dispatch ?einit ?m worker = fst (load ?einit ''blob:asset'' worker)"
    using w by (simp add: dispatch_def on_message_def)
  have 5: "outbox (dispatch example_env ?m (dispatch ?einit ?m worker)) = []"
    unfolding d1 using 3 4 o by (simp add: dispatch_def on_message_def)
  show ?thesis
    using 1 2 3 4 5 by simp
qed

text \<open>
  Claim C10. A message is added to the outbox only by a \<open>load\<close> command whose load
  completes, and then it is one message. A load that does not complete leaves the outbox
  as it was; when it ended in the \<open>catch\<close> block, the error is on the console. An inbound
  message whose type is not \<open>load\<close> changes nothing.
\<close>

theorem worker_posts_only_on_success:
  "(outbox (dispatch env e w) \<noteq> outbox w \<longrightarrow>
      listening w \<and> data_type e = ''load'' \<and> snd (load env (data_url e) w) = Completed)
   \<and> (snd (load env url w) \<noteq> Completed \<longrightarrow> outbox (fst (load env url w)) = outbox w)
   \<and> (snd (load env url w) = Completed \<longrightarrow>
        (\<exists>gc. outbox (fst (load env url w)) = outbox w @ [envelope gc]))
   \<and> (snd (load env url w) = Caught err \<longrightarrow>
        Console_error [] err \<in> set (console (fst (load env url w))))
   \<and> (data_type e \<noteq> ''load'' \<longrightarrow> dispatch env e w = w)"
proof -
  have l: "load env u w = (fst (load env u w), snd (load env u w))" for u
    by simp
  note o = load_outbox [OF l]
  have a: "outbox (fst (load env u w)) = outbox w" if "snd (load env u w) \<noteq> Completed" for u
    using o [of u] that by simp
  have b: "\<exists>gc. outbox (fst (load env u w)) = outbox w @ [envelope gc]"
    if "snd (load env u w) = Completed" for u
    using o [of u] that by simp
  have c: "Console_error [] err \<in> set (console (fst (load env url w)))"
    if "snd (load env url w) = Caught err"
    using load_Caught_logged [OF l [of url, unfolded that]] .
  have d: "dispatch env e w = w" if "data_type e \<noteq> ''load''"
    using that by (simp add: dispatch_def on_message_def)
  have e: "listening w \<and> data_type e = ''load'' \<and> snd (load env (data_url e) w) = Completed"
    if "outbox (dispatch env e w) \<noteq> outbox w"
    using that a [of "data_url e"]
    by (auto simp: dispatch_def on_message_def split: if_splits)
  show ?thesis
    using a [of url] b [of url] c d e by blast
qed

theorem worker_posts_only_on_success_witness:
  "outbox (fst (load (example_env\<lparr>fetch := Inr \<lparr>ok = False, status = 404, arrayBuffer = Inr []\<rparr>\<rparr>)
      ''blob:asset'' worker)) = outbox (worker :: nat world)
   \<and> (\<exists>gc. outbox (fst (load example_env ''blob:asset'' worker))
              = outbox (worker :: nat world) @ [envelope gc])
   \<and> Console_error [] (FetchError 404) \<in> set (console (fst
        (load (example_env\<lparr>fetch := Inr \<lparr>ok = False, status = 404, arrayBuffer = Inr []\<rparr>\<rparr>)
      ''blob:asset'' worker)))
   \<and> dispatch example_env \<lparr>data_type = ''ping'', data_url = ''blob:asset''\<rparr> worker = worker
   \<and> outbox (dispatch example_env \<lparr>data_type = ''load'', data_url = ''blob:asset''\<rparr> worker)
       \<noteq> outbox (worker :: nat world)
   \<and> listening (worker :: nat world)
   \<and> snd (load example_env (data_url \<lparr>data_type = ''load'', data_url = ''blob:asset''\<rparr>) worker)
       = Completed"
proof -
  let ?e404 = "example_env\<lparr>fetch := Inr \<lparr>ok = False, status = 404, arrayBuffer = Inr []\<rparr>\<rparr>"
  have f: "snd (load ?e404 ''blob:asset'' worker) = Caught (FetchError 404)"
    by (simp add: load_404)
  have s: "snd (load example_env ''blob:asset'' worker) = Completed"
    by (simp add: load_example)
  have n: "outbox (dispatch example_env \<lparr>data_type = ''load'', data_url = ''blob:asset''\<rparr> worker)
             \<noteq> outbox (worker :: nat world)"
    by (simp add: dispatch_def on_message_def load_example)
       (simp add: worker_def addEventListener_def initial_world_def)
  note t3 = worker_posts_only_on_success
      [of example_env "\<lparr>data_type = ''load'', data_url = ''blob:asset''\<rparr>" worker "''blob:asset''"
          "FetchError 404"]
  note t1 = worker_posts_only_on_success
      [of ?e404 "\<lparr>data_type = ''ping'', data_url = ''blob:asset''\<rparr>" worker "''blob:asset''"
          "FetchError 404"]
  note t2 = worker_posts_only_on_success
      [of example_env "\<lparr>data_type = ''ping'', data_url = ''blob:asset''\<rparr>" worker "''blob:asset''"
          "FetchError 404"]
  show ?thesis
    using t1 t2 t3 f s n by simp
qed

end
